theory Spec2Isabelle
  imports Main
begin

section \<open>JavaScript values, errors and coercions\<close>

text \<open>
  The script (\<^verbatim>\<open>src/app/static/script.js\<close>) is untyped: what a server reply parses to is
  any JSON value, and the handlers read properties of it without checking. The model keeps
  that: \<open>jsval\<close> holds the values \<^verbatim>\<open>JSON.parse\<close> can produce, and \<open>undefined\<close>, which the
  call functions return after a caught error and which a missing property reads as.
  A number is carried as the decimal text \<^verbatim>\<open>Number.prototype.toString\<close> gives for it, so no
  floating point arithmetic is needed; an object is the list of its own properties (keys
  distinct, as after parsing).
\<close>

datatype jsval =
    JUndefined
  | JNull
  | JBool bool
  | JNum string
  | JStr string
  | JArr "jsval list"
  | JObj "(string \<times> jsval) list"

text \<open>
  The errors the script can meet: the \<^verbatim>\<open>Error\<close> it throws itself on a non-2xx status,
  the \<^verbatim>\<open>TypeError\<close> of a failed \<^verbatim>\<open>fetch\<close> or of a property read on
  \<^verbatim>\<open>undefined\<close>/\<^verbatim>\<open>null\<close>, and the \<^verbatim>\<open>SyntaxError\<close> of \<^verbatim>\<open>response.json()\<close> on a body
  that is not JSON. Each carries its \<^verbatim>\<open>message\<close>. The wording of the messages raised by
  the engine is the engine's own; nothing in the script reads it.
\<close>

datatype js_error = TypeError string | SyntaxError string | Error string

fun message :: "js_error \<Rightarrow> string" where
  "message (TypeError m) = m"
| "message (SyntaxError m) = m"
| "message (Error m) = m"

text \<open>Sequencing of steps that may throw: the first error ends the computation.\<close>

definition andThen :: "js_error + 'a \<Rightarrow> ('a \<Rightarrow> js_error + 'b) \<Rightarrow> js_error + 'b" where
  "andThen x f = (case x of Inl e \<Rightarrow> Inl e | Inr v \<Rightarrow> f v)"

text \<open>\<^verbatim>\<open>v == null\<close>: true of \<^verbatim>\<open>null\<close> and of \<^verbatim>\<open>undefined\<close>, of nothing else.\<close>

definition nullish :: "jsval \<Rightarrow> bool" where
  "nullish v = (v = JUndefined \<or> v = JNull)"

text \<open>
  \<^verbatim>\<open>v.k\<close> for the property names the script reads (\<^verbatim>\<open>tools\<close>, \<^verbatim>\<open>name\<close>,
  \<^verbatim>\<open>description\<close>, \<^verbatim>\<open>session_id\<close>, \<^verbatim>\<open>response\<close>): a TypeError on \<^verbatim>\<open>undefined\<close> and
  \<^verbatim>\<open>null\<close>, the own property of an object, and \<^verbatim>\<open>undefined\<close> where there is none (no
  prototype defines one of these names for a parsed JSON value).
\<close>

fun get_prop :: "jsval \<Rightarrow> string \<Rightarrow> js_error + jsval" where
  "get_prop JUndefined k = Inl (TypeError (''Cannot read properties of undefined (reading '' @ k @ '')''))"
| "get_prop JNull k = Inl (TypeError (''Cannot read properties of null (reading '' @ k @ '')''))"
| "get_prop (JObj ps) k = Inr (case map_of ps k of None \<Rightarrow> JUndefined | Some v \<Rightarrow> v)"
| "get_prop v k = Inr JUndefined"

text \<open>
  \<^verbatim>\<open>Array.prototype.join\<close> over element texts already computed in order: the first
  element that throws ends the join.
\<close>

fun join_comma :: "(js_error + string) list \<Rightarrow> js_error + string" where
  "join_comma [] = Inr []"
| "join_comma [x] = x"
| "join_comma (x # y # ys) =
     andThen x (\<lambda>s. andThen (join_comma (y # ys)) (\<lambda>t. Inr (s @ '','' @ t)))"

text \<open>
  The abstract operation ToString on a parsed JSON value. An array joins its elements
  with commas, \<^verbatim>\<open>null\<close> and \<^verbatim>\<open>undefined\<close> elements as the empty text. A plain object is
  \<^verbatim>\<open>[object Object]\<close>, unless it has an own property \<^verbatim>\<open>toString\<close>: parsed from JSON, that
  property is not callable, and the conversion throws.
\<close>

fun ToString :: "jsval \<Rightarrow> js_error + string" where
  "ToString JUndefined = Inr ''undefined''"
| "ToString JNull = Inr ''null''"
| "ToString (JBool b) = Inr (if b then ''true'' else ''false'')"
| "ToString (JNum n) = Inr n"
| "ToString (JStr s) = Inr s"
| "ToString (JArr xs) =
     join_comma (map (\<lambda>x. if x = JUndefined \<or> x = JNull then Inr [] else ToString x) xs)"
| "ToString (JObj ps) =
     (if ''toString'' \<in> fst ` set ps
      then Inl (TypeError ''Cannot convert object to primitive value'')
      else Inr ''[object Object]'')"

text \<open>
  How the DOM converts a value assigned to an attribute of an element:
  \<^item> \<^verbatim>\<open>id\<close>, \<^verbatim>\<open>htmlFor\<close> (DOMString): ToString;
  \<^item> \<^verbatim>\<open>value\<close> of an input (LegacyNullToEmptyString): \<^verbatim>\<open>null\<close> is the empty text;
  \<^item> \<^verbatim>\<open>textContent\<close> (a nullable DOMString): \<^verbatim>\<open>null\<close> and \<^verbatim>\<open>undefined\<close> are the
    empty text.
\<close>

definition DOMString :: "jsval \<Rightarrow> js_error + string" where
  "DOMString v = ToString v"

definition LegacyNullToEmptyString :: "jsval \<Rightarrow> js_error + string" where
  "LegacyNullToEmptyString v = (if v = JNull then Inr [] else ToString v)"

definition nullable_DOMString :: "jsval \<Rightarrow> js_error + string" where
  "nullable_DOMString v = (if nullish v then Inr [] else ToString v)"

text \<open>The decimal text of a status code, as the template literal of the error message prints it.\<close>

fun show_nat :: "nat \<Rightarrow> string" where
  "show_nat n =
     (if n < 10 then [''0123456789'' ! n]
      else show_nat (n div 10) @ [''0123456789'' ! (n mod 10)])"

declare show_nat.simps [simp del]

section \<open>The network, as the script sees it\<close>

text \<open>
  A request as \<^verbatim>\<open>fetch\<close> is given it. The payload is the JSON value that the text made by
  \<^verbatim>\<open>JSON.stringify\<close> denotes.
\<close>

record request =
  url :: string
  http_method :: string
  headers :: "(string \<times> string) list"
  payload :: "jsval option"

text \<open>
  A reply: its status code and what \<^verbatim>\<open>response.json()\<close> does with its body, the
  parsed value or a SyntaxError with its message.
\<close>

record response =
  status :: nat
  body :: "string + jsval"

text \<open>\<^verbatim>\<open>response.ok\<close>: the status is in the range 200 to 299.\<close>

definition ok :: "response \<Rightarrow> bool" where
  "ok r = (200 \<le> status r \<and> status r \<le> 299)"

text \<open>
  What one \<^verbatim>\<open>fetch\<close> does: the promise rejects (a network failure, a TypeError with the
  browser's message) or resolves to a reply. The reply is the environment's choice, so each
  function that calls \<^verbatim>\<open>fetch\<close> once takes it as an argument.
\<close>

datatype fetch_result = Rejects string | Resolves response

text \<open>
  The JSON value that the text made by \<^verbatim>\<open>JSON.stringify\<close> denotes. A number that is not
  finite (\<^verbatim>\<open>Infinity\<close>, which \<^verbatim>\<open>JSON.parse\<close> gives for a literal such as \<^verbatim>\<open>1e999\<close>,
  \<^verbatim>\<open>-Infinity\<close>, \<^verbatim>\<open>NaN\<close>) is written as \<^verbatim>\<open>null\<close>; \<^verbatim>\<open>undefined\<close> is written as \<^verbatim>\<open>null\<close>
  in an array, and a property of an object whose value is \<^verbatim>\<open>undefined\<close> is left out. An
  own property \<^verbatim>\<open>toJSON\<close> of a parsed value is not callable and is ignored.
\<close>

fun json_value :: "jsval \<Rightarrow> jsval" where
  "json_value JUndefined = JNull"
| "json_value (JNum n) =
     (if n = ''Infinity'' \<or> n = ''-Infinity'' \<or> n = ''NaN'' then JNull else JNum n)"
| "json_value (JArr xs) = JArr (map json_value xs)"
| "json_value (JObj ps) =
     JObj (map (\<lambda>(k, v). (k, json_value v)) (filter (\<lambda>(k, v). v \<noteq> JUndefined) ps))"
| "json_value v = v"

text \<open>\<^verbatim>\<open>JSON.stringify\<close> of an object literal with the given properties.\<close>

definition JSON_stringify :: "(string \<times> jsval) list \<Rightarrow> jsval" where
  "JSON_stringify props = json_value (JObj props)"

section \<open>The page\<close>

text \<open>
  One entry of the tool checklist, as \<^verbatim>\<open>initCheckbox\<close> builds it (lines 87 to 110): the
  wrapper \<^verbatim>\<open>div\<close>, its checkbox, its label and its description paragraph.
\<close>

record tool_item =
  wrapper_className :: string
  checkbox_type :: string
  checkbox_id :: string
  checkbox_value :: string
  checkbox_checked :: bool
  label_htmlFor :: string
  label_textContent :: string
  description_textContent :: string
  description_className :: string

text \<open>
  The three alerts of the script. Their texts are Japanese literals in the source: line 132
  (no tool is selected), line 142 (no session has been started) and line 148 (nothing was
  typed).
\<close>

datatype alert_text = NoToolSelected | SessionNotStarted | NothingEntered

text \<open>
  What the script writes to the console: \<^verbatim>\<open>console.error(e.message)\<close> in the three catch
  blocks, \<^verbatim>\<open>console.log(selectedTools)\<close> (line 124), and the two template literals of lines
  150 and 151 (a fixed Japanese prefix, then the session id, or the query, as text).
\<close>

datatype console_entry =
    ConsoleError string
  | LogSelectedTools "string list"
  | LogCurrentSession string
  | LogQuery string

text \<open>
  The state of the page: the script's global variables (\<^verbatim>\<open>currentSessinId\<close>, \<^verbatim>\<open>userId\<close>,
  and the implicit globals \<^verbatim>\<open>toolList\<close> and \<^verbatim>\<open>result\<close>), the parts of the document it reads
  and writes (the children of \<^verbatim>\<open>#tool-container\<close>, the value of \<^verbatim>\<open>#query-input\<close>, the
  text content of \<^verbatim>\<open>#chat-content-tmp\<close>), and what it has done to the outside: the alerts
  shown, the console lines, the requests issued, each in order. \<open>listening\<close> says that the
  click listeners of the two buttons are installed (lines 164 to 169).
  The elements the script looks up by id are taken to exist in the page, and the script to
  be loaded as a classic script (the assignments to \<^verbatim>\<open>toolList\<close> and \<^verbatim>\<open>result\<close> create
  globals).
\<close>

record page =
  currentSessinId :: jsval
  userId :: string
  toolList :: jsval
  result :: jsval
  toolContainer :: "tool_item list"
  queryInput :: string
  chatContentTmp :: string
  alerts :: "alert_text list"
  console :: "console_entry list"
  network :: "request list"
  listening :: bool

definition getToolListEndpoint :: string where
  "getToolListEndpoint = ''/tools''"

definition createSessionEndpoint :: string where
  "createSessionEndpoint = ''/sessions/create''"

definition queryEndpoint :: string where
  "queryEndpoint = ''/query''"

text \<open>
  The state when the script has been evaluated (lines 13 and 14), before any event. The
  document is taken to start with an empty tool container, an empty query input and an
  empty chat display.
\<close>

definition initial_page :: page where
  "initial_page =
     \<lparr>currentSessinId = JNull, userId = ''default_user'', toolList = JUndefined,
      result = JUndefined, toolContainer = [], queryInput = [], chatContentTmp = [],
      alerts = [], console = [], network = [], listening = False\<rparr>"

definition alert :: "alert_text \<Rightarrow> page \<Rightarrow> page" where
  "alert a c = c\<lparr>alerts := alerts c @ [a]\<rparr>"

definition console_write :: "console_entry \<Rightarrow> page \<Rightarrow> page" where
  "console_write l c = c\<lparr>console := console c @ [l]\<rparr>"

definition fetch :: "request \<Rightarrow> page \<Rightarrow> page" where
  "fetch r c = c\<lparr>network := network c @ [r]\<rparr>"

section \<open>API calls (lines 17 to 76)\<close>

text \<open>
  The rest of each \<^verbatim>\<open>try\<close> block once \<^verbatim>\<open>fetch\<close> has been called, the same in the three
  call functions: a rejected fetch throws; a reply that is not \<^verbatim>\<open>ok\<close> makes the script
  throw \<^verbatim>\<open>Error(`HTTP error! Status: ${response.status}`)\<close>; otherwise the body is parsed,
  which may throw.
\<close>

definition await_json :: "fetch_result \<Rightarrow> js_error + jsval" where
  "await_json fr =
     (case fr of
        Rejects m \<Rightarrow> Inl (TypeError m)
      | Resolves r \<Rightarrow>
          if \<not> ok r then Inl (Error (''HTTP error! Status: '' @ show_nat (status r)))
          else (case body r of Inl m \<Rightarrow> Inl (SyntaxError m) | Inr v \<Rightarrow> Inr v))"

text \<open>
  The \<^verbatim>\<open>catch\<close> block of the three call functions: the message is logged and the function
  ends without a \<^verbatim>\<open>return\<close>, so its value is \<^verbatim>\<open>undefined\<close>.
\<close>

definition try_catch :: "js_error + jsval \<Rightarrow> page \<Rightarrow> jsval \<times> page" where
  "try_catch t c =
     (case t of
        Inr v \<Rightarrow> (v, c)
      | Inl e \<Rightarrow> (JUndefined, console_write (ConsoleError (message e)) c))"

definition callGetToolList :: "fetch_result \<Rightarrow> page \<Rightarrow> jsval \<times> page" where
  "callGetToolList fr c =
     try_catch (await_json fr)
       (fetch \<lparr>url = getToolListEndpoint, http_method = ''GET'', headers = [],
               payload = None\<rparr> c)"

definition callCreateSession :: "string list \<Rightarrow> fetch_result \<Rightarrow> page \<Rightarrow> jsval \<times> page" where
  "callCreateSession selectedTools fr c =
     try_catch (await_json fr)
       (fetch \<lparr>url = createSessionEndpoint, http_method = ''POST'',
               headers = [(''Content-Type'', ''application/json'')],
               payload = Some (JSON_stringify
                 [(''user_id'', JStr (userId c)),
                  (''tool_names'', JArr (map JStr selectedTools))])\<rparr> c)"

definition callQuery :: "string \<Rightarrow> fetch_result \<Rightarrow> page \<Rightarrow> jsval \<times> page" where
  "callQuery query fr c =
     try_catch (await_json fr)
       (fetch \<lparr>url = queryEndpoint, http_method = ''POST'',
               headers = [(''Content-Type'', ''application/json'')],
               payload = Some (JSON_stringify
                 [(''user_id'', JStr (userId c)),
                  (''query'', JStr query),
                  (''session_id'', currentSessinId c)])\<rparr> c)"

section \<open>Handlers (lines 80 to 156)\<close>

text \<open>
  How an \<^verbatim>\<open>async\<close> handler without a return value ends: its promise is fulfilled, or
  rejected with the error that escaped it.
\<close>

datatype completion = Fulfilled | Rejected js_error

text \<open>
  The body of the \<^verbatim>\<open>forEach\<close> callback up to the \<^verbatim>\<open>appendChild\<close> calls (lines 88 to
  105): the elements of one entry, with the tool's name and description converted as the
  attributes they are assigned to convert them. The four reads of \<^verbatim>\<open>tool.name\<close> give the
  same value, so it is read once. A new checkbox is not checked.
\<close>

definition make_tool_item :: "jsval \<Rightarrow> js_error + tool_item" where
  "make_tool_item tool =
     andThen (get_prop tool ''name'') (\<lambda>name.
     andThen (DOMString name) (\<lambda>cid.
     andThen (LegacyNullToEmptyString name) (\<lambda>cvalue.
     andThen (DOMString name) (\<lambda>lfor.
     andThen (nullable_DOMString name) (\<lambda>ltext.
     andThen (get_prop tool ''description'') (\<lambda>description.
     andThen (nullable_DOMString description) (\<lambda>dtext.
       Inr \<lparr>wrapper_className = ''tool-item'',
            checkbox_type = ''checkbox'',
            checkbox_id = cid,
            checkbox_value = cvalue,
            checkbox_checked = False,
            label_htmlFor = lfor,
            label_textContent = ltext,
            description_textContent = dtext,
            description_className = ''tool-description''\<rparr>)))))))"

text \<open>
  \<^verbatim>\<open>toolList.tools.forEach(...)\<close>: one entry appended to the container per tool, in the
  array's order. An error in one iteration ends the loop; the entries appended before it
  stay.
\<close>

fun forEach_tool :: "jsval list \<Rightarrow> page \<Rightarrow> completion \<times> page" where
  "forEach_tool [] c = (Fulfilled, c)"
| "forEach_tool (tool # tools) c =
     (case make_tool_item tool of
        Inl e \<Rightarrow> (Rejected e, c)
      | Inr item \<Rightarrow> forEach_tool tools (c\<lparr>toolContainer := toolContainer c @ [item]\<rparr>))"

definition initCheckbox :: "fetch_result \<Rightarrow> page \<Rightarrow> completion \<times> page" where
  "initCheckbox fr c =
     (let (tl, c1) = callGetToolList fr c;
          c2 = c1\<lparr>toolList := tl\<rparr>
      in case get_prop tl ''tools'' of
           Inl e \<Rightarrow> (Rejected e, c2)
         | Inr (JArr tools) \<Rightarrow> forEach_tool tools c2
         | Inr JUndefined \<Rightarrow>
             (Rejected (TypeError ''Cannot read properties of undefined (reading forEach)''), c2)
         | Inr JNull \<Rightarrow>
             (Rejected (TypeError ''Cannot read properties of null (reading forEach)''), c2)
         | Inr _ \<Rightarrow> (Rejected (TypeError ''toolList.tools.forEach is not a function''), c2))"

text \<open>
  \<^verbatim>\<open>getSelectedTools\<close>: the values of the checked checkboxes of the container, in document
  order; the list is logged.
\<close>

definition getSelectedTools :: "page \<Rightarrow> string list \<times> page" where
  "getSelectedTools c =
     (let selectedTools = map checkbox_value (filter checkbox_checked (toolContainer c))
      in (selectedTools, console_write (LogSelectedTools selectedTools) c))"

definition createSession :: "fetch_result \<Rightarrow> page \<Rightarrow> completion \<times> page" where
  "createSession fr c =
     (let (selectedTools, c1) = getSelectedTools c
      in if length selectedTools = 0 then (Fulfilled, alert NoToolSelected c1)
         else
           (let (newSessinId, c2) = callCreateSession selectedTools fr c1
            in case get_prop newSessinId ''session_id'' of
                 Inl e \<Rightarrow> (Rejected e, c2)
               | Inr v \<Rightarrow> (Fulfilled, c2\<lparr>currentSessinId := v\<rparr>)))"

text \<open>
  \<^verbatim>\<open>sendQuery\<close>. The template literal of line 150 converts the session id to text, which
  can throw; in the assignment of line 153 the right-hand side is evaluated (and can throw)
  before the text content is set.
\<close>

definition sendQuery :: "fetch_result \<Rightarrow> page \<Rightarrow> completion \<times> page" where
  "sendQuery fr c =
     (if nullish (currentSessinId c) then (Fulfilled, alert SessionNotStarted c)
      else
        (let query = queryInput c
         in if query = [] then (Fulfilled, alert NothingEntered c)
            else
              (case ToString (currentSessinId c) of
                 Inl e \<Rightarrow> (Rejected e, c)
               | Inr sid \<Rightarrow>
                   (let c1 = console_write (LogCurrentSession sid) c;
                        c2 = console_write (LogQuery query) c1;
                        (res, c3) = callQuery query fr c2;
                        c4 = c3\<lparr>result := res\<rparr>
                    in case andThen (get_prop res ''response'') nullable_DOMString of
                         Inl e \<Rightarrow> (Rejected e, c4)
                       | Inr t \<Rightarrow> (Fulfilled, c4\<lparr>chatContentTmp := t\<rparr>)))))"

section \<open>Events (lines 160 to 170)\<close>

text \<open>
  The listener of \<^verbatim>\<open>DOMContentLoaded\<close>: the click listeners are installed only once
  \<^verbatim>\<open>initCheckbox\<close> has returned; if it throws, the listener's promise is rejected and
  they never are.
\<close>

definition domContentLoaded :: "fetch_result \<Rightarrow> page \<Rightarrow> completion \<times> page" where
  "domContentLoaded fr c =
     (case initCheckbox fr c of
        (Rejected e, c1) \<Rightarrow> (Rejected e, c1)
      | (Fulfilled, c1) \<Rightarrow> (Fulfilled, c1\<lparr>listening := True\<rparr>))"

text \<open>
  What can happen on the loaded page: the user checks or unchecks the \<open>i\<close>-th checkbox of
  the container, types into the query input, or clicks one of the two buttons (the reply
  the server will give to the request, if one is issued, comes with the click). A click
  runs the handler when the listeners are installed; an error that escapes the handler is
  an unhandled rejection, and the page goes on in the state the handler left. Each handler
  runs to its end before the next event: requests do not overlap.
\<close>

datatype event =
    SetChecked nat bool
  | TypeQuery string
  | ClickCreateSession fetch_result
  | ClickSendMessage fetch_result

fun step :: "event \<Rightarrow> page \<Rightarrow> page" where
  "step (SetChecked i b) c =
     (if i < length (toolContainer c)
      then c\<lparr>toolContainer := (toolContainer c)[i := (toolContainer c ! i)\<lparr>checkbox_checked := b\<rparr>]\<rparr>
      else c)"
| "step (TypeQuery q) c = c\<lparr>queryInput := q\<rparr>"
| "step (ClickCreateSession fr) c = (if listening c then snd (createSession fr c) else c)"
| "step (ClickSendMessage fr) c = (if listening c then snd (sendQuery fr c) else c)"

fun run :: "event list \<Rightarrow> page \<Rightarrow> page" where
  "run [] c = c"
| "run (e # es) c = run es (step e c)"

section \<open>Replies, runs and examples\<close>

text \<open>
  A call fails when its \<^verbatim>\<open>try\<close> block throws: the fetch is rejected, the status of the
  reply is not 2xx, or its body is not JSON.
\<close>

fun call_fails :: "fetch_result \<Rightarrow> bool" where
  "call_fails (Rejects m) = True"
| "call_fails (Resolves r) = (\<not> ok r \<or> isl (body r))"

text \<open>
  The message a failed call logs: the browser's for a rejected fetch, the script's own for
  a status that is not 2xx, the parser's for a body that is not JSON.
\<close>

fun logged_message :: "fetch_result \<Rightarrow> string" where
  "logged_message (Rejects m) = m"
| "logged_message (Resolves r) =
     (if \<not> ok r then ''HTTP error! Status: '' @ show_nat (status r)
      else (case body r of Inl m \<Rightarrow> m | Inr v \<Rightarrow> []))"

text \<open>
  A reply to a session creation that cannot take the session away: a failure, or a 2xx
  reply whose JSON body is an object with a \<^verbatim>\<open>session_id\<close> that is neither \<^verbatim>\<open>null\<close> nor
  missing.
\<close>

fun has_session_id :: "jsval \<Rightarrow> bool" where
  "has_session_id (JObj ps) =
     (case map_of ps ''session_id'' of Some v \<Rightarrow> \<not> nullish v | None \<Rightarrow> False)"
| "has_session_id v = False"

fun create_reply_conforms :: "fetch_result \<Rightarrow> bool" where
  "create_reply_conforms (Rejects m) = True"
| "create_reply_conforms (Resolves r) =
     (if ok r then (case body r of Inl m \<Rightarrow> True | Inr v \<Rightarrow> has_session_id v) else True)"

text \<open>
  Events whose session creation, if any, fails; and events whose session creation, if any,
  gets such a reply.
\<close>

fun creation_fails :: "event \<Rightarrow> bool" where
  "creation_fails (ClickCreateSession fr) = call_fails fr"
| "creation_fails e = True"

fun creation_conforms :: "event \<Rightarrow> bool" where
  "creation_conforms (ClickCreateSession fr) = create_reply_conforms fr"
| "creation_conforms e = True"

text \<open>
  The text a value holds under the property \<open>k\<close>, when it is an object that has a text
  there.
\<close>

fun text_prop :: "jsval \<Rightarrow> string \<Rightarrow> string option" where
  "text_prop (JObj ps) k = (case map_of ps k of Some (JStr s) \<Rightarrow> Some s | _ \<Rightarrow> None)"
| "text_prop v k = None"

text \<open>
  The reachable states: the page is loaded, the catalog request gets the reply \<open>fr0\<close>, and
  then the events \<open>evs\<close> happen.
\<close>

definition page_after :: "fetch_result \<Rightarrow> event list \<Rightarrow> page" where
  "page_after fr0 evs = run evs (snd (domContentLoaded fr0 initial_page))"

text \<open>Replies used in the examples below.\<close>

definition tools_reply :: fetch_result where
  "tools_reply = Resolves \<lparr>status = 200, body = Inr (JObj [(''tools'',
     JArr [JObj [(''name'', JStr ''search''), (''description'', JStr ''Web search'')]])])\<rparr>"

definition session_reply :: fetch_result where
  "session_reply =
     Resolves \<lparr>status = 200, body = Inr (JObj [(''session_id'', JStr ''abc123'')])\<rparr>"

definition query_reply :: fetch_result where
  "query_reply = Resolves \<lparr>status = 200, body = Inr (JObj [(''response'', JStr ''hello'')])\<rparr>"

definition error_reply :: fetch_result where
  "error_reply = Resolves \<lparr>status = 500, body = Inl ''Unexpected token''\<rparr>"

section \<open>What each function changes\<close>

lemmas handler_defs =
  callGetToolList_def callCreateSession_def callQuery_def try_catch_def fetch_def
  console_write_def alert_def getSelectedTools_def Let_def

lemma message_await_json_fails:
  "call_fails fr \<Longrightarrow> \<exists>e. await_json fr = Inl e \<and> message e = logged_message fr"
  by (cases fr) (auto simp: await_json_def split: sum.splits)

lemma try_catch_Inl:
  "try_catch (Inl e) c = (JUndefined, console_write (ConsoleError (message e)) c)"
  by (simp add: try_catch_def)

lemma try_catch_snd_network: "network (snd (try_catch t c)) = network c"
  by (cases t) (simp_all add: try_catch_def console_write_def)

lemma callGetToolList_fails:
  "call_fails fr \<Longrightarrow> callGetToolList fr c =
     (JUndefined, console_write (ConsoleError (logged_message fr))
        (fetch \<lparr>url = getToolListEndpoint, http_method = ''GET'', headers = [],
                payload = None\<rparr> c))"
  using message_await_json_fails [of fr]
  by (auto simp: callGetToolList_def try_catch_Inl)

lemma callCreateSession_fails:
  "call_fails fr \<Longrightarrow> \<exists>rq. callCreateSession sel fr c =
     (JUndefined, console_write (ConsoleError (logged_message fr)) (fetch rq c))"
  using message_await_json_fails [of fr]
  by (auto simp: callCreateSession_def try_catch_Inl)

lemma callQuery_fails:
  "call_fails fr \<Longrightarrow> \<exists>rq. callQuery q fr c =
     (JUndefined, console_write (ConsoleError (logged_message fr)) (fetch rq c))"
  using message_await_json_fails [of fr]
  by (auto simp: callQuery_def try_catch_Inl)

lemma sendQuery_keeps:
  "currentSessinId (snd (sendQuery fr c)) = currentSessinId c"
  "userId (snd (sendQuery fr c)) = userId c"
  "toolContainer (snd (sendQuery fr c)) = toolContainer c"
  "listening (snd (sendQuery fr c)) = listening c"
  by (simp_all add: sendQuery_def handler_defs split: sum.splits prod.splits)

lemma createSession_keeps:
  "userId (snd (createSession fr c)) = userId c"
  "chatContentTmp (snd (createSession fr c)) = chatContentTmp c"
  "toolContainer (snd (createSession fr c)) = toolContainer c"
  "listening (snd (createSession fr c)) = listening c"
  by (simp_all add: createSession_def handler_defs split: sum.splits prod.splits)

lemma json_value_texts: "map json_value (map JStr xs) = map JStr xs"
  by (induction xs) simp_all

lemma sendQuery_network:
  "network (snd (sendQuery fr c)) =
     (if nullish (currentSessinId c) \<or> queryInput c = [] \<or> isl (ToString (currentSessinId c))
      then network c
      else network c @
        [\<lparr>url = queryEndpoint, http_method = ''POST'',
          headers = [(''Content-Type'', ''application/json'')],
          payload = Some (JSON_stringify [(''user_id'', JStr (userId c)),
            (''query'', JStr (queryInput c)), (''session_id'', currentSessinId c)])\<rparr>])"
  by (auto simp: sendQuery_def handler_defs split: sum.splits prod.splits)

lemma createSession_network:
  "network (snd (createSession fr c)) =
     (if filter checkbox_checked (toolContainer c) = [] then network c
      else network c @
        [\<lparr>url = createSessionEndpoint, http_method = ''POST'',
          headers = [(''Content-Type'', ''application/json'')],
          payload = Some (JObj [(''user_id'', JStr (userId c)),
            (''tool_names'', JArr (map JStr
               (map checkbox_value (filter checkbox_checked (toolContainer c)))))])\<rparr>])"
  by (auto simp: createSession_def handler_defs JSON_stringify_def json_value_texts
        simp del: map_map split: sum.splits prod.splits)

lemma forEach_tool_keeps:
  "currentSessinId (snd (forEach_tool ts c)) = currentSessinId c"
  "userId (snd (forEach_tool ts c)) = userId c"
  "chatContentTmp (snd (forEach_tool ts c)) = chatContentTmp c"
  "network (snd (forEach_tool ts c)) = network c"
  "console (snd (forEach_tool ts c)) = console c"
  "alerts (snd (forEach_tool ts c)) = alerts c"
  by (induction ts arbitrary: c; simp split: sum.splits)+

lemma initCheckbox_network:
  "network (snd (initCheckbox fr c)) = network c @
     [\<lparr>url = getToolListEndpoint, http_method = ''GET'', headers = [], payload = None\<rparr>]"
  by (simp add: initCheckbox_def handler_defs forEach_tool_keeps
        split: sum.splits prod.splits jsval.splits)

lemma initCheckbox_fails:
  "call_fails fr \<Longrightarrow> initCheckbox fr c =
     (Rejected (TypeError ''Cannot read properties of undefined (reading tools)''),
      c\<lparr>toolList := JUndefined,
        console := console c @ [ConsoleError (logged_message fr)],
        network := network c @
          [\<lparr>url = getToolListEndpoint, http_method = ''GET'', headers = [],
            payload = None\<rparr>]\<rparr>)"
  by (simp add: initCheckbox_def callGetToolList_fails console_write_def fetch_def)

lemma createSession_fails_keeps_id:
  "call_fails fr \<Longrightarrow> currentSessinId (snd (createSession fr c)) = currentSessinId c"
  using message_await_json_fails [of fr]
  by (auto simp: createSession_def handler_defs)

lemma createSession_fails_console:
  "call_fails fr \<Longrightarrow> filter checkbox_checked (toolContainer c) \<noteq> [] \<Longrightarrow>
     console (snd (createSession fr c)) = console c @
       [LogSelectedTools (map checkbox_value (filter checkbox_checked (toolContainer c))),
        ConsoleError (logged_message fr)]"
  using message_await_json_fails [of fr]
  by (auto simp: createSession_def handler_defs)

lemma sendQuery_fails_keeps_chat:
  "call_fails fr \<Longrightarrow> chatContentTmp (snd (sendQuery fr c)) = chatContentTmp c"
  using message_await_json_fails [of fr]
  by (auto simp: sendQuery_def handler_defs andThen_def split: sum.splits)

lemma sendQuery_fails_console:
  "call_fails fr \<Longrightarrow> \<not> nullish (currentSessinId c) \<Longrightarrow> queryInput c \<noteq> [] \<Longrightarrow>
     ToString (currentSessinId c) = Inr sid \<Longrightarrow>
     console (snd (sendQuery fr c)) = console c @
       [LogCurrentSession sid, LogQuery (queryInput c), ConsoleError (logged_message fr)]"
  using message_await_json_fails [of fr]
  by (auto simp: sendQuery_def handler_defs andThen_def)

lemma createSession_stores_id:
  assumes "filter checkbox_checked (toolContainer c) \<noteq> []"
    and "ok r" and "body r = Inr (JObj ps)" and "map_of ps ''session_id'' = Some v"
  shows "fst (createSession (Resolves r) c) = Fulfilled
     \<and> currentSessinId (snd (createSession (Resolves r) c)) = v"
  using assms
  by (simp add: createSession_def handler_defs await_json_def)

section \<open>Runs\<close>

lemma step_keeps_userId: "userId (step e c) = userId c"
  by (cases e) (simp_all add: sendQuery_keeps createSession_keeps)

lemma run_keeps_userId: "userId (run evs c) = userId c"
  by (induction evs arbitrary: c) (simp_all add: step_keeps_userId)

lemma step_fails_keeps_id:
  "creation_fails e \<Longrightarrow> currentSessinId (step e c) = currentSessinId c"
  by (cases e) (simp_all add: sendQuery_keeps createSession_fails_keeps_id)

lemma run_fails_keeps_id:
  "list_all creation_fails evs \<Longrightarrow> currentSessinId (run evs c) = currentSessinId c"
  by (induction evs arbitrary: c) (simp_all add: step_fails_keeps_id)

lemma createSession_conforms_keeps_session:
  assumes "create_reply_conforms fr" and "\<not> nullish (currentSessinId c)"
  shows "\<not> nullish (currentSessinId (snd (createSession fr c)))"
proof (cases "call_fails fr")
  case True
  then show ?thesis using assms(2) by (simp add: createSession_fails_keeps_id)
next
  case False
  then obtain r where fr: "fr = Resolves r" and r: "ok r" "\<not> isl (body r)"
    by (cases fr) auto
  then obtain v where v: "body r = Inr v" by (cases "body r") auto
  with assms(1) fr r obtain ps sv
    where ps: "v = JObj ps" "map_of ps ''session_id'' = Some sv" "\<not> nullish sv"
    by (cases v) (auto split: option.splits)
  show ?thesis
  proof (cases "filter checkbox_checked (toolContainer c) = []")
    case True
    then show ?thesis using assms(2)
      by (simp add: createSession_def handler_defs)
  next
    case False
    show ?thesis
      using createSession_stores_id [OF False r(1), of ps sv] v ps
      by (simp add: fr)
  qed
qed

lemma step_conforms_keeps_session:
  "creation_conforms e \<Longrightarrow> \<not> nullish (currentSessinId c) \<Longrightarrow>
     \<not> nullish (currentSessinId (step e c))"
  by (cases e) (simp_all add: sendQuery_keeps createSession_conforms_keeps_session)

lemma run_conforms_keeps_session:
  "list_all creation_conforms evs \<Longrightarrow> \<not> nullish (currentSessinId c) \<Longrightarrow>
     \<not> nullish (currentSessinId (run evs c))"
  by (induction evs arbitrary: c) (simp_all add: step_conforms_keeps_session)

lemma step_changes_id_only_by_creation:
  "currentSessinId (step e c) \<noteq> currentSessinId c \<Longrightarrow>
     \<exists>fr. e = ClickCreateSession fr \<and> \<not> call_fails fr"
  using step_fails_keeps_id [of e c] by (cases e) auto

lemma step_without_session_no_query:
  assumes "nullish (currentSessinId c)"
  shows "list_all (\<lambda>r. url r \<noteq> queryEndpoint)
           (drop (length (network c)) (network (step e c)))"
proof (cases e)
  case (ClickCreateSession fr)
  then show ?thesis
    by (simp add: createSession_network createSessionEndpoint_def queryEndpoint_def)
next
  case (ClickSendMessage fr)
  then show ?thesis using assms
    by (simp add: sendQuery_network)
qed simp_all

section \<open>Rendering the catalog\<close>

lemma make_tool_item_texts:
  assumes "text_prop t ''name'' = Some n" and "text_prop t ''description'' = Some d"
  shows "make_tool_item t =
     Inr \<lparr>wrapper_className = ''tool-item'', checkbox_type = ''checkbox'', checkbox_id = n,
          checkbox_value = n, checkbox_checked = False, label_htmlFor = n,
          label_textContent = n, description_textContent = d,
          description_className = ''tool-description''\<rparr>"
proof -
  from assms(1) obtain ps where t: "t = JObj ps"
    by (cases t) simp_all
  from assms have "map_of ps ''name'' = Some (JStr n)" "map_of ps ''description'' = Some (JStr d)"
    unfolding t by (auto split: option.splits jsval.splits)
  then show ?thesis
    by (simp add: t make_tool_item_def andThen_def DOMString_def LegacyNullToEmptyString_def
          nullable_DOMString_def nullish_def)
qed

lemma forEach_tool_texts:
  assumes "list_all2 (\<lambda>t (n, d). text_prop t ''name'' = Some n
             \<and> text_prop t ''description'' = Some d) ts tools"
  shows "forEach_tool ts c =
     (Fulfilled, c\<lparr>toolContainer := toolContainer c @
        map (\<lambda>(n, d). \<lparr>wrapper_className = ''tool-item'', checkbox_type = ''checkbox'',
          checkbox_id = n, checkbox_value = n, checkbox_checked = False, label_htmlFor = n,
          label_textContent = n, description_textContent = d,
          description_className = ''tool-description''\<rparr>) tools\<rparr>)"
  using assms
proof (induction ts tools arbitrary: c rule: list_all2_induct)
  case Nil
  show ?case by simp
next
  case (Cons t ts nd tools)
  obtain n d where nd: "nd = (n, d)" by (cases nd)
  from Cons.hyps(1) have "text_prop t ''name'' = Some n" "text_prop t ''description'' = Some d"
    by (simp_all add: nd)
  then show ?case
    by (simp add: nd make_tool_item_texts Cons.IH)
qed

section \<open>Example states\<close>

lemma example_selected:
  "userId (page_after tools_reply [SetChecked 0 True]) = ''default_user''"
  "map checkbox_value (filter checkbox_checked
     (toolContainer (page_after tools_reply [SetChecked 0 True]))) = [''search'']"
  by code_simp+

lemma example_in_session:
  "currentSessinId (page_after tools_reply
     [SetChecked 0 True, ClickCreateSession session_reply, TypeQuery ''hi'']) = JStr ''abc123''"
  "queryInput (page_after tools_reply
     [SetChecked 0 True, ClickCreateSession session_reply, TypeQuery ''hi'']) = ''hi''"
  "chatContentTmp (page_after tools_reply
     [SetChecked 0 True, ClickCreateSession session_reply, TypeQuery ''hi'',
      ClickSendMessage query_reply]) = ''hello''"
  by code_simp+

lemma example_loaded:
  "filter checkbox_checked (toolContainer (page_after tools_reply [])) = []"
  "alerts (page_after tools_reply []) = []"
  "network (page_after tools_reply []) =
     [\<lparr>url = ''/tools'', http_method = ''GET'', headers = [], payload = None\<rparr>]"
  "currentSessinId (page_after tools_reply []) = JNull"
  by code_simp+

lemma example_answered:
  "currentSessinId (page_after tools_reply
     [SetChecked 0 True, ClickCreateSession session_reply, TypeQuery ''hi'',
      ClickSendMessage query_reply]) = JStr ''abc123''"
  "queryInput (page_after tools_reply
     [SetChecked 0 True, ClickCreateSession session_reply, TypeQuery ''hi'',
      ClickSendMessage query_reply]) = ''hi''"
  by code_simp+

lemma example_typed:
  "currentSessinId (page_after tools_reply [TypeQuery ''hi'']) = JNull"
  "network (page_after tools_reply [TypeQuery ''hi'']) =
     [\<lparr>url = ''/tools'', http_method = ''GET'', headers = [], payload = None\<rparr>]"
  by code_simp+

lemma example_consoles:
  "console initial_page = []"
  "filter checkbox_checked (toolContainer (page_after tools_reply [SetChecked 0 True])) \<noteq> []"
  "console (page_after tools_reply [SetChecked 0 True]) = []"
  "currentSessinId (page_after tools_reply [SetChecked 0 True]) = JNull"
  "console (page_after tools_reply
     [SetChecked 0 True, ClickCreateSession session_reply, TypeQuery ''hi'',
      ClickSendMessage query_reply])
     = [LogSelectedTools [''search''], LogCurrentSession ''abc123'', LogQuery ''hi'']"
  by code_simp+

section \<open>The claims\<close>

text \<open>
  Claim C1. The selected tools are \<^verbatim>\<open>["search"]\<close>, the user id is \<^verbatim>\<open>default_user\<close>, and
  the creation call gets a 2xx reply with body \<^verbatim>\<open>{session_id: "abc123"}\<close>. Then, after any
  further events among which no session creation succeeds, the stored id is \<^verbatim>\<open>"abc123"\<close>
  and a call of \<^verbatim>\<open>callQuery\<close> with the text \<open>q\<close> issues one request, to \<^verbatim>\<open>/query\<close>, whose body
  is \<^verbatim>\<open>{user_id: "default_user", query: q, session_id: "abc123"}\<close>; so does \<^verbatim>\<open>sendQuery\<close>,
  with the text of the query input, when that text is not empty.
\<close>

theorem queries_carry_created_session:
  assumes "userId c = ''default_user''"
    and "map checkbox_value (filter checkbox_checked (toolContainer c)) = [''search'']"
    and "ok r" and "body r = Inr (JObj [(''session_id'', JStr ''abc123'')])"
    and "list_all creation_fails evs"
  shows "currentSessinId (run evs (snd (createSession (Resolves r) c))) = JStr ''abc123''
     \<and> network (snd (callQuery q fr (run evs (snd (createSession (Resolves r) c)))))
         = network (run evs (snd (createSession (Resolves r) c))) @
           [\<lparr>url = queryEndpoint, http_method = ''POST'',
             headers = [(''Content-Type'', ''application/json'')],
             payload = Some (JObj [(''user_id'', JStr ''default_user''), (''query'', JStr q),
               (''session_id'', JStr ''abc123'')])\<rparr>]
     \<and> (queryInput (run evs (snd (createSession (Resolves r) c))) \<noteq> [] \<longrightarrow>
          network (snd (sendQuery fr (run evs (snd (createSession (Resolves r) c)))))
            = network (run evs (snd (createSession (Resolves r) c))) @
              [\<lparr>url = queryEndpoint, http_method = ''POST'',
                headers = [(''Content-Type'', ''application/json'')],
                payload = Some (JObj [(''user_id'', JStr ''default_user''),
                  (''query'', JStr (queryInput (run evs (snd (createSession (Resolves r) c))))),
                  (''session_id'', JStr ''abc123'')])\<rparr>])"
proof -
  let ?c1 = "snd (createSession (Resolves r) c)"
  have sel: "filter checkbox_checked (toolContainer c) \<noteq> []"
    using assms(2) by auto
  have "currentSessinId ?c1 = JStr ''abc123''"
    using createSession_stores_id [OF sel assms(3) assms(4), of "JStr ''abc123''"] by simp
  then have sid: "currentSessinId (run evs ?c1) = JStr ''abc123''"
    by (simp add: run_fails_keeps_id [OF assms(5)])
  have uid: "userId (run evs ?c1) = ''default_user''"
    by (simp add: run_keeps_userId createSession_keeps assms(1))
  show ?thesis
    by (simp add: sid uid callQuery_def try_catch_snd_network fetch_def JSON_stringify_def
          sendQuery_network nullish_def)
qed

theorem queries_carry_created_session_witness:
  "userId (page_after tools_reply [SetChecked 0 True]) = ''default_user''
   \<and> map checkbox_value (filter checkbox_checked
        (toolContainer (page_after tools_reply [SetChecked 0 True]))) = [''search'']
   \<and> ok \<lparr>status = 200, body = Inr (JObj [(''session_id'', JStr ''abc123'')])\<rparr>
   \<and> list_all creation_fails
        [TypeQuery ''hi'', ClickSendMessage query_reply, ClickCreateSession error_reply]
   \<and> currentSessinId
        (run [TypeQuery ''hi'', ClickSendMessage query_reply, ClickCreateSession error_reply]
          (snd (createSession
            (Resolves \<lparr>status = 200, body = Inr (JObj [(''session_id'', JStr ''abc123'')])\<rparr>)
            (page_after tools_reply [SetChecked 0 True])))) = JStr ''abc123''
   \<and> last (network (snd (callQuery ''again'' query_reply
        (run [TypeQuery ''hi'', ClickSendMessage query_reply, ClickCreateSession error_reply]
          (snd (createSession
            (Resolves \<lparr>status = 200, body = Inr (JObj [(''session_id'', JStr ''abc123'')])\<rparr>)
            (page_after tools_reply [SetChecked 0 True])))))))
       = \<lparr>url = ''/query'', http_method = ''POST'',
           headers = [(''Content-Type'', ''application/json'')],
           payload = Some (JObj [(''user_id'', JStr ''default_user''),
             (''query'', JStr ''again''), (''session_id'', JStr ''abc123'')])\<rparr>"
proof -
  have r: "ok \<lparr>status = 200, body = Inr (JObj [(''session_id'', JStr ''abc123'')])\<rparr>"
    by (simp add: ok_def)
  have b: "body \<lparr>status = 200, body = Inr (JObj [(''session_id'', JStr ''abc123'')])\<rparr>
      = Inr (JObj [(''session_id'', JStr ''abc123'')])"
    by simp
  have evs: "list_all creation_fails
      [TypeQuery ''hi'', ClickSendMessage query_reply, ClickCreateSession error_reply]"
    by (simp add: error_reply_def ok_def)
  note t = queries_carry_created_session
      [OF example_selected(1) example_selected(2) r b evs, of "''again''" query_reply]
  have sid: "currentSessinId
        (run [TypeQuery ''hi'', ClickSendMessage query_reply, ClickCreateSession error_reply]
          (snd (createSession
            (Resolves \<lparr>status = 200, body = Inr (JObj [(''session_id'', JStr ''abc123'')])\<rparr>)
            (page_after tools_reply [SetChecked 0 True])))) = JStr ''abc123''"
    using t by blast
  have req: "last (network (snd (callQuery ''again'' query_reply
        (run [TypeQuery ''hi'', ClickSendMessage query_reply, ClickCreateSession error_reply]
          (snd (createSession
            (Resolves \<lparr>status = 200, body = Inr (JObj [(''session_id'', JStr ''abc123'')])\<rparr>)
            (page_after tools_reply [SetChecked 0 True])))))))
       = \<lparr>url = ''/query'', http_method = ''POST'',
           headers = [(''Content-Type'', ''application/json'')],
           payload = Some (JObj [(''user_id'', JStr ''default_user''),
             (''query'', JStr ''again''), (''session_id'', JStr ''abc123'')])\<rparr>"
    using t [THEN conjunct2, THEN conjunct1] by (simp add: queryEndpoint_def del: run.simps)
  show ?thesis
    by (intro conjI; (rule example_selected r evs sid req))
qed

text \<open>
  Claim C2, as stated, fails: with no session (the stored id is \<^verbatim>\<open>null\<close>) and a query
  typed in, \<^verbatim>\<open>sendQuery\<close> shows the alert and issues no request at all. The query branch is
  the \<^verbatim>\<open>else\<close> of the check of line 141.
\<close>

theorem sendQuery_null_session_counterexample:
  "currentSessinId (initial_page\<lparr>queryInput := ''hi''\<rparr>) = JNull
   \<and> alerts (snd (sendQuery query_reply (initial_page\<lparr>queryInput := ''hi''\<rparr>)))
       = [SessionNotStarted]
   \<and> network (snd (sendQuery query_reply (initial_page\<lparr>queryInput := ''hi''\<rparr>))) = []"
  by (simp add: sendQuery_def initial_page_def nullish_def alert_def)

text \<open>
  Claim C2, amended. When the stored session id is \<^verbatim>\<open>null\<close>, \<^verbatim>\<open>sendQuery\<close> warns the user
  with the alert and does nothing else: the handler ends normally, the page is otherwise
  unchanged, and no request is issued.
\<close>

theorem sendQuery_null_session_warns_only:
  assumes "currentSessinId c = JNull"
  shows "sendQuery fr c = (Fulfilled, c\<lparr>alerts := alerts c @ [SessionNotStarted]\<rparr>)
     \<and> network (snd (sendQuery fr c)) = network c"
  using assms by (simp add: sendQuery_def nullish_def alert_def)

theorem sendQuery_null_session_warns_only_witness:
  "currentSessinId (page_after tools_reply []) = JNull
   \<and> alerts (snd (sendQuery query_reply (page_after tools_reply []))) = [SessionNotStarted]
   \<and> network (snd (sendQuery query_reply (page_after tools_reply [])))
       = [\<lparr>url = ''/tools'', http_method = ''GET'', headers = [], payload = None\<rparr>]"
  using sendQuery_null_session_warns_only [OF example_loaded(4), of query_reply]
  by (simp add: example_loaded)

text \<open>
  Claim C3. A query request is sent only when a session id is held: when the stored id is
  \<^verbatim>\<open>null\<close> (or \<^verbatim>\<open>undefined\<close>, which \<^verbatim>\<open>== null\<close> also accepts), \<^verbatim>\<open>sendQuery\<close> ends normally
  and issues no request; and no event at all that happens in such a state, the click on
  the send button included, adds a request to \<^verbatim>\<open>/query\<close> to the requests issued. This holds
  in every state, so in every reachable one.
\<close>

theorem query_sent_only_with_session:
  assumes "nullish (currentSessinId c)"
  shows "fst (sendQuery fr c) = Fulfilled
     \<and> network (snd (sendQuery fr c)) = network c
     \<and> list_all (\<lambda>r. url r \<noteq> queryEndpoint)
          (drop (length (network c)) (network (step e c)))"
  using assms step_without_session_no_query [OF assms, of e]
  by (simp add: sendQuery_def alert_def)

theorem query_sent_only_with_session_witness:
  "nullish (currentSessinId (page_after tools_reply [TypeQuery ''hi'']))
   \<and> fst (sendQuery query_reply (page_after tools_reply [TypeQuery ''hi''])) = Fulfilled
   \<and> network (snd (sendQuery query_reply (page_after tools_reply [TypeQuery ''hi''])))
       = [\<lparr>url = ''/tools'', http_method = ''GET'', headers = [], payload = None\<rparr>]
   \<and> list_all (\<lambda>r. url r \<noteq> queryEndpoint)
        (drop (length (network (page_after tools_reply [TypeQuery ''hi''])))
          (network (step (ClickSendMessage query_reply)
            (page_after tools_reply [TypeQuery ''hi'']))))"
proof -
  have h: "nullish (currentSessinId (page_after tools_reply [TypeQuery ''hi'']))"
    by (simp add: example_typed nullish_def)
  show ?thesis
    using query_sent_only_with_session [OF h, of query_reply "ClickSendMessage query_reply"] h
    by (simp add: example_typed del: step.simps)
qed

text \<open>
  Claim C4. When the reply has a status that is not 2xx, each of the three operations
  leaves the stored session id and the text of the chat display as they were (the catalog
  fetch also leaves the checklist as it was), and the error is logged. For the catalog
  fetch the console has one more line, the error. For a session creation with a tool
  selected (so that the request is issued) the console has two more lines, the selected
  tools and then the error. For a query with a session held and a query typed (so that the
  request is issued) the console has three more lines, the session, the query and then
  the error.
\<close>

theorem non_2xx_leaves_state_unchanged:
  assumes "\<not> ok r"
  shows "(currentSessinId (snd (initCheckbox (Resolves r) c)) = currentSessinId c
      \<and> chatContentTmp (snd (initCheckbox (Resolves r) c)) = chatContentTmp c
      \<and> toolContainer (snd (initCheckbox (Resolves r) c)) = toolContainer c
      \<and> console (snd (initCheckbox (Resolves r) c))
          = console c @ [ConsoleError (''HTTP error! Status: '' @ show_nat (status r))])
    \<and> (currentSessinId (snd (createSession (Resolves r) c)) = currentSessinId c
      \<and> chatContentTmp (snd (createSession (Resolves r) c)) = chatContentTmp c
      \<and> (filter checkbox_checked (toolContainer c) \<noteq> [] \<longrightarrow>
           console (snd (createSession (Resolves r) c)) = console c @
             [LogSelectedTools (map checkbox_value (filter checkbox_checked (toolContainer c))),
              ConsoleError (''HTTP error! Status: '' @ show_nat (status r))]))
    \<and> (currentSessinId (snd (sendQuery (Resolves r) c)) = currentSessinId c
      \<and> chatContentTmp (snd (sendQuery (Resolves r) c)) = chatContentTmp c
      \<and> (\<not> nullish (currentSessinId c) \<and> queryInput c \<noteq> []
            \<and> ToString (currentSessinId c) = Inr sid \<longrightarrow>
           console (snd (sendQuery (Resolves r) c)) = console c @
             [LogCurrentSession sid, LogQuery (queryInput c),
              ConsoleError (''HTTP error! Status: '' @ show_nat (status r))]))"
proof -
  have f: "call_fails (Resolves r)"
    and m: "logged_message (Resolves r) = ''HTTP error! Status: '' @ show_nat (status r)"
    using assms by simp_all
  have init: "currentSessinId (snd (initCheckbox (Resolves r) c)) = currentSessinId c
      \<and> chatContentTmp (snd (initCheckbox (Resolves r) c)) = chatContentTmp c
      \<and> toolContainer (snd (initCheckbox (Resolves r) c)) = toolContainer c
      \<and> console (snd (initCheckbox (Resolves r) c))
          = console c @ [ConsoleError (''HTTP error! Status: '' @ show_nat (status r))]"
    using m by (simp add: initCheckbox_fails [OF f])
  have create: "currentSessinId (snd (createSession (Resolves r) c)) = currentSessinId c
      \<and> chatContentTmp (snd (createSession (Resolves r) c)) = chatContentTmp c
      \<and> (filter checkbox_checked (toolContainer c) \<noteq> [] \<longrightarrow>
           console (snd (createSession (Resolves r) c)) = console c @
             [LogSelectedTools (map checkbox_value (filter checkbox_checked (toolContainer c))),
              ConsoleError (''HTTP error! Status: '' @ show_nat (status r))])"
    using createSession_fails_keeps_id [OF f, of c] createSession_fails_console [OF f, of c]
      createSession_keeps(2) [of "Resolves r" c] m
    by simp
  have query: "currentSessinId (snd (sendQuery (Resolves r) c)) = currentSessinId c
      \<and> chatContentTmp (snd (sendQuery (Resolves r) c)) = chatContentTmp c
      \<and> (\<not> nullish (currentSessinId c) \<and> queryInput c \<noteq> []
            \<and> ToString (currentSessinId c) = Inr sid \<longrightarrow>
           console (snd (sendQuery (Resolves r) c)) = console c @
             [LogCurrentSession sid, LogQuery (queryInput c),
              ConsoleError (''HTTP error! Status: '' @ show_nat (status r))])"
    using sendQuery_fails_keeps_chat [OF f, of c] sendQuery_fails_console [OF f, of c sid]
      sendQuery_keeps(1) [of "Resolves r" c] m
    by simp
  from init create query show ?thesis by blast
qed

theorem non_2xx_leaves_state_unchanged_witness:
  "\<not> ok \<lparr>status = 500, body = Inl ''Unexpected token''\<rparr>
   \<and> console (snd (initCheckbox (Resolves \<lparr>status = 500, body = Inl ''Unexpected token''\<rparr>)
        initial_page)) = [ConsoleError ''HTTP error! Status: 500'']
   \<and> currentSessinId (snd (createSession
        (Resolves \<lparr>status = 500, body = Inl ''Unexpected token''\<rparr>)
        (page_after tools_reply [SetChecked 0 True]))) = JNull
   \<and> console (snd (createSession (Resolves \<lparr>status = 500, body = Inl ''Unexpected token''\<rparr>)
        (page_after tools_reply [SetChecked 0 True])))
       = [LogSelectedTools [''search''], ConsoleError ''HTTP error! Status: 500'']
   \<and> currentSessinId (snd (sendQuery (Resolves \<lparr>status = 500, body = Inl ''Unexpected token''\<rparr>)
        (page_after tools_reply
          [SetChecked 0 True, ClickCreateSession session_reply, TypeQuery ''hi'',
           ClickSendMessage query_reply]))) = JStr ''abc123''
   \<and> chatContentTmp (snd (sendQuery (Resolves \<lparr>status = 500, body = Inl ''Unexpected token''\<rparr>)
        (page_after tools_reply
          [SetChecked 0 True, ClickCreateSession session_reply, TypeQuery ''hi'',
           ClickSendMessage query_reply]))) = ''hello''
   \<and> console (snd (sendQuery (Resolves \<lparr>status = 500, body = Inl ''Unexpected token''\<rparr>)
        (page_after tools_reply
          [SetChecked 0 True, ClickCreateSession session_reply, TypeQuery ''hi'',
           ClickSendMessage query_reply])))
       = [LogSelectedTools [''search''], LogCurrentSession ''abc123'', LogQuery ''hi'',
          LogCurrentSession ''abc123'', LogQuery ''hi'',
          ConsoleError ''HTTP error! Status: 500'']"
proof -
  have r: "\<not> ok \<lparr>status = 500, body = Inl ''Unexpected token''\<rparr>"
    by (simp add: ok_def)
  show ?thesis
    using non_2xx_leaves_state_unchanged [OF r, of initial_page]
      non_2xx_leaves_state_unchanged [OF r, of "page_after tools_reply [SetChecked 0 True]"]
      non_2xx_leaves_state_unchanged [OF r, of "page_after tools_reply
          [SetChecked 0 True, ClickCreateSession session_reply, TypeQuery ''hi'',
           ClickSendMessage query_reply]" "''abc123''"]
    by (simp add: r example_answered example_in_session example_consoles example_selected
          nullish_def show_nat.simps)
qed

text \<open>
  Claim C5 does not hold of the script. The call functions catch the failure and return
  \<^verbatim>\<open>undefined\<close>, and each handler then reads a property of that result, which throws a
  TypeError that nothing catches: the handler's promise is rejected. At page load the
  rejection also ends the \<^verbatim>\<open>DOMContentLoaded\<close> listener before the click listeners are
  installed. Evaluated here: a status 500 for the catalog fetch and for a session creation
  with one tool selected, and a network failure for a query in a session.
\<close>

theorem failures_escape_handlers:
  "fst (initCheckbox error_reply initial_page)
     = Rejected (TypeError ''Cannot read properties of undefined (reading tools)'')
   \<and> fst (domContentLoaded error_reply initial_page)
     = Rejected (TypeError ''Cannot read properties of undefined (reading tools)'')
   \<and> listening (snd (domContentLoaded error_reply initial_page)) = False
   \<and> fst (createSession error_reply (page_after tools_reply [SetChecked 0 True]))
     = Rejected (TypeError ''Cannot read properties of undefined (reading session_id)'')
   \<and> fst (sendQuery (Rejects ''Failed to fetch'') (page_after tools_reply
        [SetChecked 0 True, ClickCreateSession session_reply, TypeQuery ''hi'']))
     = Rejected (TypeError ''Cannot read properties of undefined (reading response)'')"
  by code_simp

text \<open>
  Claim C6. When the catalog fetch gets a 2xx reply whose body is an object with the array
  of \<open>N\<close> tools under \<^verbatim>\<open>tools\<close>, the \<open>i\<close>-th of them an object with the text \<open>n\<close> as
  \<^verbatim>\<open>name\<close> and the text \<open>d\<close> as \<^verbatim>\<open>description\<close> (in any order, among any other
  properties), \<^verbatim>\<open>initCheckbox\<close> ends normally and has appended exactly \<open>N\<close> entries to the
  tool container, after what it held, in the order of the array: the \<open>i\<close>-th entry's
  checkbox has the \<open>i\<close>-th tool's name as id and value, its label has that name as text
  (and as \<^verbatim>\<open>htmlFor\<close>), and its paragraph has the \<open>i\<close>-th tool's description as text.
\<close>

theorem initCheckbox_renders_catalog:
  assumes "ok r" and "body r = Inr (JObj bs)" and "map_of bs ''tools'' = Some (JArr ts)"
    and "list_all2 (\<lambda>t (n, d). text_prop t ''name'' = Some n
           \<and> text_prop t ''description'' = Some d) ts tools"
  shows "fst (initCheckbox (Resolves r) c) = Fulfilled
     \<and> toolContainer (snd (initCheckbox (Resolves r) c)) = toolContainer c @
        map (\<lambda>(n, d). \<lparr>wrapper_className = ''tool-item'', checkbox_type = ''checkbox'',
          checkbox_id = n, checkbox_value = n, checkbox_checked = False, label_htmlFor = n,
          label_textContent = n, description_textContent = d,
          description_className = ''tool-description''\<rparr>) tools
     \<and> length (toolContainer (snd (initCheckbox (Resolves r) c)))
         = length (toolContainer c) + length ts"
  using assms(1-3) list_all2_lengthD [OF assms(4)]
  by (simp add: initCheckbox_def handler_defs await_json_def forEach_tool_texts [OF assms(4)])

theorem initCheckbox_renders_catalog_witness:
  "ok \<lparr>status = 200, body = Inr (JObj [(''version'', JNum ''1''), (''tools'',
      JArr [JObj [(''description'', JStr ''Web search''), (''name'', JStr ''search'')],
            JObj [(''name'', JStr ''calc''), (''description'', JStr ''Calculator''),
                  (''beta'', JBool True)]])])\<rparr>
   \<and> fst (initCheckbox (Resolves \<lparr>status = 200, body = Inr (JObj [(''version'', JNum ''1''),
      (''tools'',
      JArr [JObj [(''description'', JStr ''Web search''), (''name'', JStr ''search'')],
            JObj [(''name'', JStr ''calc''), (''description'', JStr ''Calculator''),
                  (''beta'', JBool True)]])])\<rparr>)
        initial_page) = Fulfilled
   \<and> toolContainer (snd (initCheckbox (Resolves \<lparr>status = 200, body = Inr (JObj
      [(''version'', JNum ''1''), (''tools'',
      JArr [JObj [(''description'', JStr ''Web search''), (''name'', JStr ''search'')],
            JObj [(''name'', JStr ''calc''), (''description'', JStr ''Calculator''),
                  (''beta'', JBool True)]])])\<rparr>)
        initial_page))
      = [\<lparr>wrapper_className = ''tool-item'', checkbox_type = ''checkbox'',
          checkbox_id = ''search'', checkbox_value = ''search'', checkbox_checked = False,
          label_htmlFor = ''search'', label_textContent = ''search'',
          description_textContent = ''Web search'',
          description_className = ''tool-description''\<rparr>,
         \<lparr>wrapper_className = ''tool-item'', checkbox_type = ''checkbox'',
          checkbox_id = ''calc'', checkbox_value = ''calc'', checkbox_checked = False,
          label_htmlFor = ''calc'', label_textContent = ''calc'',
          description_textContent = ''Calculator'',
          description_className = ''tool-description''\<rparr>]"
  using initCheckbox_renders_catalog
    [of "\<lparr>status = 200, body = Inr (JObj [(''version'', JNum ''1''), (''tools'',
      JArr [JObj [(''description'', JStr ''Web search''), (''name'', JStr ''search'')],
            JObj [(''name'', JStr ''calc''), (''description'', JStr ''Calculator''),
                  (''beta'', JBool True)]])])\<rparr>"
        "[(''version'', JNum ''1''), (''tools'',
      JArr [JObj [(''description'', JStr ''Web search''), (''name'', JStr ''search'')],
            JObj [(''name'', JStr ''calc''), (''description'', JStr ''Calculator''),
                  (''beta'', JBool True)]])]"
        "[JObj [(''description'', JStr ''Web search''), (''name'', JStr ''search'')],
            JObj [(''name'', JStr ''calc''), (''description'', JStr ''Calculator''),
                  (''beta'', JBool True)]]"
        "[(''search'', ''Web search''), (''calc'', ''Calculator'')]" initial_page]
  by (simp add: ok_def initial_page_def)

text \<open>
  Claim C7. When no checkbox of the tool container is checked, \<^verbatim>\<open>createSession\<close> warns the
  user with the alert and ends normally; it issues no request and leaves the stored
  session id as it was.
\<close>

theorem createSession_empty_selection:
  assumes "filter checkbox_checked (toolContainer c) = []"
  shows "fst (createSession fr c) = Fulfilled
     \<and> alerts (snd (createSession fr c)) = alerts c @ [NoToolSelected]
     \<and> network (snd (createSession fr c)) = network c
     \<and> currentSessinId (snd (createSession fr c)) = currentSessinId c"
  using assms
  by (simp add: createSession_def getSelectedTools_def alert_def console_write_def)

theorem createSession_empty_selection_witness:
  "filter checkbox_checked (toolContainer (page_after tools_reply [])) = []
   \<and> fst (createSession session_reply (page_after tools_reply [])) = Fulfilled
   \<and> alerts (snd (createSession session_reply (page_after tools_reply []))) = [NoToolSelected]
   \<and> network (snd (createSession session_reply (page_after tools_reply [])))
       = [\<lparr>url = ''/tools'', http_method = ''GET'', headers = [], payload = None\<rparr>]
   \<and> currentSessinId (snd (createSession session_reply (page_after tools_reply []))) = JNull"
  using createSession_empty_selection [OF example_loaded(1), of session_reply]
  by (simp add: example_loaded)

text \<open>
  Claim C8. When a query is sent (a session id is held, its text form is \<open>sid\<close>, and the
  query is not empty) and the call gets a 2xx reply whose body is an object with the text
  \<open>t\<close> as its \<^verbatim>\<open>response\<close>, \<^verbatim>\<open>sendQuery\<close> ends normally and the text content of the chat
  display is exactly \<open>t\<close>, whatever it was before.
\<close>

theorem sendQuery_replaces_chat:
  assumes "\<not> nullish (currentSessinId c)" and "queryInput c \<noteq> []"
    and "ToString (currentSessinId c) = Inr sid"
    and "ok r" and "body r = Inr (JObj ps)" and "map_of ps ''response'' = Some (JStr t)"
  shows "fst (sendQuery (Resolves r) c) = Fulfilled
     \<and> chatContentTmp (snd (sendQuery (Resolves r) c)) = t"
  using assms
  by (simp add: sendQuery_def handler_defs await_json_def andThen_def nullable_DOMString_def
        nullish_def)

theorem sendQuery_replaces_chat_witness:
  "chatContentTmp (page_after tools_reply
      [SetChecked 0 True, ClickCreateSession session_reply, TypeQuery ''hi'',
       ClickSendMessage query_reply]) = ''hello''
   \<and> ok \<lparr>status = 200, body = Inr (JObj [(''response'', JStr ''bye'')])\<rparr>
   \<and> fst (sendQuery (Resolves \<lparr>status = 200, body = Inr (JObj [(''response'', JStr ''bye'')])\<rparr>)
        (page_after tools_reply
          [SetChecked 0 True, ClickCreateSession session_reply, TypeQuery ''hi'',
           ClickSendMessage query_reply])) = Fulfilled
   \<and> chatContentTmp (snd (sendQuery
        (Resolves \<lparr>status = 200, body = Inr (JObj [(''response'', JStr ''bye'')])\<rparr>)
        (page_after tools_reply
          [SetChecked 0 True, ClickCreateSession session_reply, TypeQuery ''hi'',
           ClickSendMessage query_reply]))) = ''bye''"
proof -
  let ?c = "page_after tools_reply
      [SetChecked 0 True, ClickCreateSession session_reply, TypeQuery ''hi'',
       ClickSendMessage query_reply]"
  have h1: "\<not> nullish (currentSessinId ?c)" and h2: "queryInput ?c \<noteq> []"
    and h3: "ToString (currentSessinId ?c) = Inr ''abc123''"
    by (simp_all add: example_answered nullish_def)
  have h4: "ok \<lparr>status = 200, body = Inr (JObj [(''response'', JStr ''bye'')])\<rparr>"
    by (simp add: ok_def)
  show ?thesis
    using sendQuery_replaces_chat [OF h1 h2 h3 h4, of "[(''response'', JStr ''bye'')]" "''bye''"]
    by (simp add: h4 example_in_session)
qed

text \<open>
  Claim C9, as stated, fails: line 135 stores whatever \<^verbatim>\<open>session_id\<close> the 2xx reply
  carries, unchecked. With the session \<^verbatim>\<open>"abc123"\<close> held and a tool selected, a creation
  that gets the 2xx reply \<^verbatim>\<open>{session_id: null}\<close> puts \<^verbatim>\<open>null\<close> back into the stored id.
\<close>

theorem session_returns_to_null_counterexample:
  "currentSessinId (page_after tools_reply [SetChecked 0 True, ClickCreateSession session_reply])
     = JStr ''abc123''
   \<and> currentSessinId (page_after tools_reply
        [SetChecked 0 True, ClickCreateSession session_reply,
         ClickCreateSession
           (Resolves \<lparr>status = 200, body = Inr (JObj [(''session_id'', JNull)])\<rparr>)])
     = JNull"
  by code_simp

text \<open>
  Claim C9, amended. Provided that every 2xx reply to a session creation carries a
  \<^verbatim>\<open>session_id\<close> that is not \<^verbatim>\<open>null\<close>, the stored session id, once it is not \<^verbatim>\<open>null\<close>,
  never returns to \<^verbatim>\<open>null\<close>: through any events (queries, failed creations, creations
  with such a reply, checking boxes, typing) a held session id stays held; and a step takes
  the page from no session to a session only if it is a click on the creation button whose
  call did not fail.
\<close>

theorem session_never_returns_to_null:
  assumes "list_all creation_conforms evs"
  shows "(\<not> nullish (currentSessinId c) \<longrightarrow> \<not> nullish (currentSessinId (run evs c)))
     \<and> (nullish (currentSessinId c) \<and> \<not> nullish (currentSessinId (step e c)) \<longrightarrow>
          (\<exists>fr. e = ClickCreateSession fr \<and> \<not> call_fails fr))"
proof (intro conjI impI)
  assume "\<not> nullish (currentSessinId c)"
  with assms show "\<not> nullish (currentSessinId (run evs c))"
    by (rule run_conforms_keeps_session)
next
  assume "nullish (currentSessinId c) \<and> \<not> nullish (currentSessinId (step e c))"
  then have "currentSessinId (step e c) \<noteq> currentSessinId c" by auto
  then show "\<exists>fr. e = ClickCreateSession fr \<and> \<not> call_fails fr"
    by (rule step_changes_id_only_by_creation)
qed

theorem session_never_returns_to_null_witness:
  "list_all creation_conforms
     [ClickCreateSession error_reply, ClickSendMessage query_reply,
      ClickCreateSession (Rejects ''Failed to fetch''), SetChecked 0 False,
      ClickCreateSession session_reply]
   \<and> \<not> nullish (currentSessinId (page_after tools_reply
        [SetChecked 0 True, ClickCreateSession session_reply, TypeQuery ''hi'']))
   \<and> \<not> nullish (currentSessinId (run
        [ClickCreateSession error_reply, ClickSendMessage query_reply,
         ClickCreateSession (Rejects ''Failed to fetch''), SetChecked 0 False,
         ClickCreateSession session_reply]
        (page_after tools_reply
          [SetChecked 0 True, ClickCreateSession session_reply, TypeQuery ''hi''])))"
proof -
  have evs: "list_all creation_conforms
     [ClickCreateSession error_reply, ClickSendMessage query_reply,
      ClickCreateSession (Rejects ''Failed to fetch''), SetChecked 0 False,
      ClickCreateSession session_reply]"
    by (simp add: error_reply_def session_reply_def ok_def nullish_def)
  have held: "\<not> nullish (currentSessinId (page_after tools_reply
        [SetChecked 0 True, ClickCreateSession session_reply, TypeQuery ''hi'']))"
    by (simp add: example_in_session nullish_def)
  show ?thesis
    using session_never_returns_to_null [OF evs, of "page_after tools_reply
        [SetChecked 0 True, ClickCreateSession session_reply, TypeQuery ''hi'']" "TypeQuery []"]
      evs held
    by blast
qed

text \<open>
  Claim C10. When the fetch is rejected, the status is not 2xx or the body does not parse,
  each of \<^verbatim>\<open>callGetToolList\<close>, \<^verbatim>\<open>callCreateSession\<close> and \<^verbatim>\<open>callQuery\<close> returns
  \<^verbatim>\<open>undefined\<close> to its caller and has logged the error's message (one more console line,
  the error). The calls have no other way to end: whatever the \<^verbatim>\<open>try\<close> block throws is
  caught.
\<close>

theorem calls_return_undefined_on_failure:
  assumes "call_fails fr"
  shows "fst (callGetToolList fr c) = JUndefined
     \<and> console (snd (callGetToolList fr c)) = console c @ [ConsoleError (logged_message fr)]
     \<and> fst (callCreateSession sel fr c) = JUndefined
     \<and> console (snd (callCreateSession sel fr c)) = console c @ [ConsoleError (logged_message fr)]
     \<and> fst (callQuery q fr c) = JUndefined
     \<and> console (snd (callQuery q fr c)) = console c @ [ConsoleError (logged_message fr)]"
  using callGetToolList_fails [OF assms, of c] callCreateSession_fails [OF assms, of sel c]
    callQuery_fails [OF assms, of q c]
  by (auto simp: console_write_def fetch_def)

theorem calls_return_undefined_on_failure_witness:
  "call_fails (Resolves \<lparr>status = 500, body = Inr JNull\<rparr>)
   \<and> fst (callGetToolList (Resolves \<lparr>status = 500, body = Inr JNull\<rparr>) initial_page) = JUndefined
   \<and> console (snd (callGetToolList (Resolves \<lparr>status = 500, body = Inr JNull\<rparr>) initial_page))
       = [ConsoleError ''HTTP error! Status: 500'']
   \<and> fst (callCreateSession [''search''] (Resolves \<lparr>status = 500, body = Inr JNull\<rparr>) initial_page)
       = JUndefined
   \<and> fst (callQuery ''hi'' (Resolves \<lparr>status = 500, body = Inr JNull\<rparr>) initial_page) = JUndefined"
  using calls_return_undefined_on_failure
    [of "Resolves \<lparr>status = 500, body = Inr JNull\<rparr>" initial_page "[''search'']" "''hi''"]
  by (simp add: ok_def initial_page_def show_nat.simps)

end
